theory Spec2Isabelle
  imports Main "HOL-Library.Sublist"
begin

section \<open>Data model\<close>

text \<open>
  The three Mongoose collections the route handlers of \<^verbatim>\<open>routes/users.js\<close> and
  \<^verbatim>\<open>routes/messages.js\<close> read and write. An ObjectId is an opaque identifier,
  modelled as a natural number. The schema files (\<^verbatim>\<open>models/User\<close>,
  \<^verbatim>\<open>models/FriendRequest\<close>, \<^verbatim>\<open>models/Message\<close>) are not part of the sources; the
  fields are the ones the handlers and the Swagger schemas in the route files name.
\<close>

type_synonym oid = nat

datatype request_status = pending | accepted | declined

record user =
  username :: string
  profilePicture :: "string option"
  friends :: "oid list"

record friend_request =
  fr_id :: oid
  requester :: oid
  recipient :: oid
  status :: request_status

record message =
  sender :: oid
  receiver :: oid
  content :: "string option"
  media :: "string option"
  timestamp :: nat

text \<open>
  The database: users keyed by their \<^verbatim>\<open>_id\<close>; friend requests and messages as the
  sequence of documents of their collection, in insertion order (the order in which a
  \<^verbatim>\<open>find\<close> without a sort clause returns them).
\<close>

record store =
  users :: "oid \<rightharpoonup> user"
  requests :: "friend_request list"
  messages :: "message list"

subsection \<open>What a response carries\<close>

text \<open>
  \<^verbatim>\<open>populate(path, 'username profilePicture')\<close> replaces a referenced id by the
  referenced document restricted to \<^verbatim>\<open>_id\<close>, \<^verbatim>\<open>username\<close> and \<^verbatim>\<open>profilePicture\<close>.
\<close>

record public_profile =
  p_id :: oid
  p_username :: string
  p_profilePicture :: "string option"

record populated_user =
  pu_username :: string
  pu_profilePicture :: "string option"
  pu_friends :: "public_profile list"

record populated_request =
  pr_id :: oid
  pr_requester :: "public_profile option"
  pr_recipient :: oid
  pr_status :: request_status

record populated_message =
  pm_sender :: "public_profile option"
  pm_receiver :: "public_profile option"
  pm_content :: "string option"
  pm_media :: "string option"
  pm_timestamp :: nat

datatype body =
    Text string
  | ProfileJson "populated_user option"
  | UserJson user
  | RequestsJson "populated_request list"
  | MessagesJson "populated_message list"

text \<open>
  An exception raised inside an \<^verbatim>\<open>async\<close> handler: a \<^verbatim>\<open>TypeError\<close> from reading a
  property of \<^verbatim>\<open>null\<close>, the rejection of a query whose id string cannot be cast to
  an ObjectId, or the rejection of a \<^verbatim>\<open>save()\<close>. The handlers catch nothing, so the
  handler sends no response of its own in that case.
\<close>

datatype thrown = TypeError | CastError | ValidationError | DuplicateKeyError

datatype outcome = Response nat body | Thrown thrown

fun status_code :: "outcome \<Rightarrow> nat option" where
  "status_code (Response code b) = Some code"
| "status_code (Thrown e) = None"

section \<open>Queries and writes on the collections\<close>

text \<open>
  \<^verbatim>\<open>FriendRequest.findById(req.params.id)\<close>: the argument is the raw string of the
  path. \<open>cast\<close> is Mongoose's cast of a string to an ObjectId (\<open>None\<close> when the string
  is not a well-formed id); the query is rejected with a CastError then, and yields
  the document of that id or \<^verbatim>\<open>null\<close> otherwise.
\<close>

definition FriendRequest_findById ::
  "(string \<Rightarrow> oid option) \<Rightarrow> store \<Rightarrow> string \<Rightarrow> thrown + friend_request option" where
  "FriendRequest_findById cast st p =
     (case cast p of
        None \<Rightarrow> Inl CastError
      | Some i \<Rightarrow> Inr (find (\<lambda>r. fr_id r = i) (requests st)))"

text \<open>\<^verbatim>\<open>request.save()\<close> of a loaded document: the stored document of that id is replaced.\<close>

definition FriendRequest_save :: "store \<Rightarrow> friend_request \<Rightarrow> store" where
  "FriendRequest_save st r =
     st\<lparr>requests := map (\<lambda>q. if fr_id q = fr_id r then r else q) (requests st)\<rparr>"

text \<open>
  \<^verbatim>\<open>doc.friends.push(x); await doc.save()\<close>: Mongoose sends the pending array change
  as a \<^verbatim>\<open>$push\<close> on the stored document of that id.
\<close>

definition User_push_friend :: "store \<Rightarrow> oid \<Rightarrow> oid \<Rightarrow> store" where
  "User_push_friend st uid fid =
     (case users st uid of
        None \<Rightarrow> st
      | Some u \<Rightarrow> st\<lparr>users := (users st)(uid \<mapsto> u\<lparr>friends := friends u @ [fid]\<rparr>)\<rparr>)"

definition populate_ref :: "store \<Rightarrow> oid \<Rightarrow> public_profile option" where
  "populate_ref st i =
     map_option (\<lambda>u. \<lparr>p_id = i, p_username = username u, p_profilePicture = profilePicture u\<rparr>)
       (users st i)"

definition populate_user :: "store \<Rightarrow> user \<Rightarrow> populated_user" where
  "populate_user st u =
     \<lparr>pu_username = username u, pu_profilePicture = profilePicture u,
      pu_friends = List.map_filter (populate_ref st) (friends u)\<rparr>"

definition populate_request :: "store \<Rightarrow> friend_request \<Rightarrow> populated_request" where
  "populate_request st r =
     \<lparr>pr_id = fr_id r, pr_requester = populate_ref st (requester r),
      pr_recipient = recipient r, pr_status = status r\<rparr>"

definition populate_message :: "store \<Rightarrow> message \<Rightarrow> populated_message" where
  "populate_message st m =
     \<lparr>pm_sender = populate_ref st (sender m), pm_receiver = populate_ref st (receiver m),
      pm_content = content m, pm_media = media m, pm_timestamp = timestamp m\<rparr>"

section \<open>The token middleware\<close>

text \<open>
  \<^verbatim>\<open>authenticateToken\<close> (the same function in both route files). The argument
  \<open>verify\<close> stands for \<^verbatim>\<open>jwt.verify(token, process.env.JWT_SECRET, ...)\<close>: \<open>None\<close> when
  the callback gets an error, otherwise the \<^verbatim>\<open>id\<close> of the decoded payload, which is
  all the handlers read of \<^verbatim>\<open>req.user\<close>. A missing header and an empty one are both
  falsy.
\<close>

definition authenticateToken :: "(string \<Rightarrow> oid option) \<Rightarrow> string option \<Rightarrow> outcome + oid" where
  "authenticateToken verify token =
     (case token of
        None \<Rightarrow> Inl (Response 401 (Text ''Access denied''))
      | Some t \<Rightarrow>
          if t = [] then Inl (Response 401 (Text ''Access denied''))
          else (case verify t of
                  None \<Rightarrow> Inl (Response 403 (Text ''Invalid token''))
                | Some uid \<Rightarrow> Inr uid))"

section \<open>The handlers of the users router\<close>

text \<open>\<^verbatim>\<open>GET /users/profile\<close>\<close>

definition getProfile :: "store \<Rightarrow> oid \<Rightarrow> outcome \<times> store" where
  "getProfile st uid =
     (Response 200 (ProfileJson (map_option (populate_user st) (users st uid))), st)"

text \<open>
  \<^verbatim>\<open>POST /users/profile-picture\<close>; \<open>file\<close> is \<^verbatim>\<open>req.file.path\<close> when the upload
  middleware found the file part.
\<close>

definition updateProfilePicture :: "store \<Rightarrow> oid \<Rightarrow> string option \<Rightarrow> outcome \<times> store" where
  "updateProfilePicture st uid file =
     (case users st uid of
        None \<Rightarrow> (Thrown TypeError, st)
      | Some u \<Rightarrow>
          (case file of
             None \<Rightarrow> (Thrown TypeError, st)
           | Some path \<Rightarrow>
               (Response 200 (UserJson (u\<lparr>profilePicture := Some path\<rparr>)),
                st\<lparr>users := (users st)(uid \<mapsto> u\<lparr>profilePicture := Some path\<rparr>)\<rparr>)))"

text \<open>
  \<^verbatim>\<open>POST /users/friend-request\<close>. The handler sets the requester and the recipient
  (\<open>recipientId\<close>, taken from the body, is the id of a user);
  \<open>default_status\<close> is what the FriendRequest schema puts into \<^verbatim>\<open>status\<close> (the schema
  file is not in the sources, so it is an argument), and \<open>new_id\<close> the ObjectId the
  driver generates for the new document. An insert under an id already in the
  collection is rejected by the database.
\<close>

definition sendFriendRequest ::
  "request_status \<Rightarrow> store \<Rightarrow> oid \<Rightarrow> oid \<Rightarrow> oid \<Rightarrow> outcome \<times> store" where
  "sendFriendRequest default_status st uid recipientId new_id =
     (if new_id \<in> fr_id ` set (requests st) then (Thrown DuplicateKeyError, st)
      else (Response 201 (Text ''Friend request sent''),
            st\<lparr>requests := requests st @
              [\<lparr>fr_id = new_id, requester = uid, recipient = recipientId,
                status = default_status\<rparr>]\<rparr>))"

text \<open>\<^verbatim>\<open>GET /users/friend-requests\<close>\<close>

definition listPendingRequests :: "store \<Rightarrow> oid \<Rightarrow> outcome \<times> store" where
  "listPendingRequests st uid =
     (Response 200 (RequestsJson (map (populate_request st)
        (filter (\<lambda>r. recipient r = uid \<and> status r = pending) (requests st)))), st)"

text \<open>
  \<^verbatim>\<open>POST /users/friend-request/:id/accept\<close>; \<open>p\<close> is \<^verbatim>\<open>req.params.id\<close>. The handler
  reads nothing of \<^verbatim>\<open>req.user\<close>. An id that cannot be cast makes \<^verbatim>\<open>findById\<close> reject;
  a request that is not found makes \<^verbatim>\<open>request.status = ...\<close> raise; a user that is not
  found makes the first \<^verbatim>\<open>push\<close> line raise, after the request was saved.
\<close>

definition acceptFriendRequest ::
  "(string \<Rightarrow> oid option) \<Rightarrow> store \<Rightarrow> string \<Rightarrow> outcome \<times> store" where
  "acceptFriendRequest cast st p =
     (case FriendRequest_findById cast st p of
        Inl err \<Rightarrow> (Thrown err, st)
      | Inr None \<Rightarrow> (Thrown TypeError, st)
      | Inr (Some request) \<Rightarrow>
          (let st1 = FriendRequest_save st (request\<lparr>status := accepted\<rparr>) in
           case users st1 (requester request) of
             None \<Rightarrow> (Thrown TypeError, st1)
           | Some requester_doc \<Rightarrow>
               (case users st1 (recipient request) of
                  None \<Rightarrow> (Thrown TypeError, st1)
                | Some recipient_doc \<Rightarrow>
                    (let st2 = User_push_friend st1 (requester request) (recipient request);
                         st3 = User_push_friend st2 (recipient request) (requester request)
                     in (Response 200 (Text ''Friend request accepted''), st3)))))"

section \<open>The handlers of the messages router\<close>

text \<open>
  The body of \<^verbatim>\<open>POST /messages\<close>: the handler destructures \<^verbatim>\<open>receiver\<close> (the id of a
  user) and \<^verbatim>\<open>content\<close>; whatever else the client put into the body is \<open>body_other\<close>.
\<close>

record message_body =
  body_receiver :: oid
  body_content :: "string option"
  body_other :: "string \<rightharpoonup> string"

text \<open>
  \<^verbatim>\<open>POST /messages\<close>. \<open>valid\<close> is the validation \<^verbatim>\<open>save()\<close> runs for the Message
  schema, and \<open>now\<close> the clock value the schema puts into \<^verbatim>\<open>timestamp\<close>; the schema
  file is not in the sources, so both are arguments. The sender is the id of the
  verified token.
\<close>

definition sendMessage ::
  "(message \<Rightarrow> bool) \<Rightarrow> store \<Rightarrow> oid \<Rightarrow> message_body \<Rightarrow> string option \<Rightarrow> nat \<Rightarrow> outcome \<times> store" where
  "sendMessage valid st uid b file now =
     (let m = \<lparr>sender = uid, receiver = body_receiver b, content = body_content b,
                media = file, timestamp = now\<rparr>
      in if valid m
         then (Response 201 (Text ''Message sent''), st\<lparr>messages := messages st @ [m]\<rparr>)
         else (Thrown ValidationError, st))"

text \<open>
  Modelled from the spec: the validation of the Message schema (\<^verbatim>\<open>models/Message\<close>
  is not in the sources). The spec has the text content nullable only if media is
  present, and a message with neither rejected with a ValidationError.
\<close>

definition Message_schema_valid :: "message \<Rightarrow> bool" where
  "Message_schema_valid m = (content m \<noteq> None \<or> media m \<noteq> None)"

text \<open>
  \<^verbatim>\<open>GET /messages/:receiverId\<close>: the \<^verbatim>\<open>$or\<close> query, then \<^verbatim>\<open>populate\<close>. The two
  arguments are the ids of two users: the one of the verified token and the one the
  path names.
\<close>

definition conversation_query :: "oid \<Rightarrow> oid \<Rightarrow> message \<Rightarrow> bool" where
  "conversation_query uid receiverId m =
     (sender m = uid \<and> receiver m = receiverId \<or> sender m = receiverId \<and> receiver m = uid)"

definition getConversation :: "store \<Rightarrow> oid \<Rightarrow> oid \<Rightarrow> outcome \<times> store" where
  "getConversation st uid receiverId =
     (Response 200 (MessagesJson (map (populate_message st)
        (filter (conversation_query uid receiverId) (messages st)))), st)"

section \<open>Requests through the middleware\<close>

datatype route =
    GetProfile
  | PostProfilePicture "string option"
  | PostFriendRequest oid
  | GetFriendRequests
  | PostFriendRequestAccept string
  | PostMessage message_body "string option"
  | GetMessages oid

text \<open>
  A request: the \<^verbatim>\<open>Authorization\<close> header, the route with its parameters, and the
  two values the server draws while it handles the request (the clock and a new
  ObjectId).
\<close>

record http_request =
  authorization :: "string option"
  route :: route
  clock_now :: nat
  fresh_id :: oid

text \<open>
  What the route files take from outside: the token verification of the
  \<^verbatim>\<open>jsonwebtoken\<close> library with the server's secret, Mongoose's cast of a string to
  an ObjectId, and the two Mongoose schemas' validation of a Message and default
  status of a FriendRequest.
\<close>

record env =
  jwt_verify :: "string \<Rightarrow> oid option"
  ObjectId_cast :: "string \<Rightarrow> oid option"
  Message_validate :: "message \<Rightarrow> bool"
  FriendRequest_status_default :: request_status

text \<open>
  A route with its middleware chain: \<^verbatim>\<open>authenticateToken\<close> first, and the handler
  only when it calls \<^verbatim>\<open>next()\<close>.
\<close>

definition handle :: "env \<Rightarrow> store \<Rightarrow> http_request \<Rightarrow> outcome \<times> store" where
  "handle e st rq =
     (case authenticateToken (jwt_verify e) (authorization rq) of
        Inl out \<Rightarrow> (out, st)
      | Inr uid \<Rightarrow>
          (case route rq of
             GetProfile \<Rightarrow> getProfile st uid
           | PostProfilePicture file \<Rightarrow> updateProfilePicture st uid file
           | PostFriendRequest recipientId \<Rightarrow>
               sendFriendRequest (FriendRequest_status_default e) st uid recipientId (fresh_id rq)
           | GetFriendRequests \<Rightarrow> listPendingRequests st uid
           | PostFriendRequestAccept p \<Rightarrow> acceptFriendRequest (ObjectId_cast e) st p
           | PostMessage b file \<Rightarrow> sendMessage (Message_validate e) st uid b file (clock_now rq)
           | GetMessages receiverId \<Rightarrow> getConversation st uid receiverId))"

section \<open>The broadcast relay\<close>

text \<open>
  \<^verbatim>\<open>index.js\<close>: the Socket.IO server. The argument of an inbound \<^verbatim>\<open>sendMessage\<close>
  event is whatever the client sent: an object (its fields by name) or nothing, in
  which case the destructuring in the listener's parameter raises.
\<close>

type_synonym sid = nat

type_synonym jsval = string

datatype arg = Nullish | Object "string \<rightharpoonup> jsval"

record event =
  ev_sender :: "jsval option"
  ev_receiver :: "jsval option"
  ev_content :: "jsval option"
  ev_media :: "jsval option"

text \<open>
  The relay: the sockets connected now (Socket.IO keeps them by id), and for every
  socket the \<^verbatim>\<open>receiveMessage\<close> events handed to it so far, in order.
\<close>

record relay =
  sockets :: "sid set"
  received :: "sid \<Rightarrow> event list"

text \<open>\<^verbatim>\<open>io.emit('receiveMessage', e)\<close>: the event goes to every connected socket.\<close>

definition io_emit :: "relay \<Rightarrow> event \<Rightarrow> relay" where
  "io_emit r e =
     r\<lparr>received := (\<lambda>s. if s \<in> sockets r then received r s @ [e] else received r s)\<rparr>"

text \<open>The parameter \<^verbatim>\<open>({ sender, receiver, content, media })\<close> of the listener.\<close>

definition destructure :: "(string \<rightharpoonup> jsval) \<Rightarrow> event" where
  "destructure f =
     \<lparr>ev_sender = f ''sender'', ev_receiver = f ''receiver'',
      ev_content = f ''content'', ev_media = f ''media''\<rparr>"

text \<open>
  What happens at the server: a client connects, a client's connection closes, or a
  \<^verbatim>\<open>sendMessage\<close> event arrives on a socket. The two other listeners only log. An
  event can only arrive on a connected socket.
\<close>

datatype action = Connection sid | Disconnect sid | SendMessage sid arg

fun on_action :: "relay \<Rightarrow> action \<Rightarrow> thrown + relay" where
  "on_action r (Connection s) = Inr (r\<lparr>sockets := insert s (sockets r)\<rparr>)"
| "on_action r (Disconnect s) = Inr (r\<lparr>sockets := sockets r - {s}\<rparr>)"
| "on_action r (SendMessage s a) =
     (if s \<notin> sockets r then Inr r
      else (case a of
              Nullish \<Rightarrow> Inl TypeError
            | Object f \<Rightarrow> Inr (io_emit r (destructure f))))"

text \<open>A sequence of actions, up to the first uncaught exception.\<close>

fun run :: "relay \<Rightarrow> action list \<Rightarrow> thrown + relay" where
  "run r [] = Inr r"
| "run r (a # as) = (case on_action r a of Inl e \<Rightarrow> Inl e | Inr r' \<Rightarrow> run r' as)"

text \<open>
  The events the clients submit in a sequence of actions, in order: of every payload
  the four fields as the client wrote them.
\<close>

fun published :: "action list \<Rightarrow> event list" where
  "published [] = []"
| "published (SendMessage s (Object f) # as) =
     \<lparr>ev_sender = f ''sender'', ev_receiver = f ''receiver'',
      ev_content = f ''content'', ev_media = f ''media''\<rparr> # published as"
| "published (a # as) = published as"

section \<open>Observations and a sample database\<close>

text \<open>The friend list stored for a user (empty when there is no such user).\<close>

definition friends_of :: "store \<Rightarrow> oid \<Rightarrow> oid list" where
  "friends_of st uid = (case users st uid of None \<Rightarrow> [] | Some u \<Rightarrow> friends u)"

text \<open>The timestamps of the messages of a response, in the order of the response.\<close>

fun response_timestamps :: "outcome \<Rightarrow> nat list" where
  "response_timestamps (Response code (MessagesJson ms)) = map pm_timestamp ms"
| "response_timestamps out = []"

text \<open>
  Three users, one pending friend request from user 1 to user 2, and a verifier that
  knows one token per user.
\<close>

definition ex_verify :: "string \<Rightarrow> oid option" where
  "ex_verify t =
     (if t = ''token-u1'' then Some 1
      else if t = ''token-u2'' then Some 2
      else if t = ''token-u3'' then Some 3
      else None)"

text \<open>
  A cast of id strings: the 24 hexadecimal digits of an ObjectId, read as a number;
  any other string is not an id.
\<close>

definition hex_digit :: "char \<Rightarrow> nat option" where
  "hex_digit c =
     (if 48 \<le> (of_char c :: nat) \<and> (of_char c :: nat) \<le> 57 then Some (of_char c - 48)
      else if 97 \<le> (of_char c :: nat) \<and> (of_char c :: nat) \<le> 102 then Some (of_char c - 87)
      else if 65 \<le> (of_char c :: nat) \<and> (of_char c :: nat) \<le> 70 then Some (of_char c - 55)
      else None)"

fun hex_value :: "nat \<Rightarrow> string \<Rightarrow> nat option" where
  "hex_value acc [] = Some acc"
| "hex_value acc (c # cs) =
     (case hex_digit c of None \<Rightarrow> None | Some d \<Rightarrow> hex_value (16 * acc + d) cs)"

definition cast_hex24 :: "string \<Rightarrow> oid option" where
  "cast_hex24 p = (if length p = 24 then hex_value 0 p else None)"

text \<open>
  An environment with that verifier and that cast, and schemas that require no field
  (the Swagger schemas of the route files name no required property).
\<close>

definition ex_env :: env where
  "ex_env = \<lparr>jwt_verify = ex_verify, ObjectId_cast = cast_hex24,
             Message_validate = (\<lambda>m. True), FriendRequest_status_default = pending\<rparr>"

definition ex_store :: store where
  "ex_store =
     \<lparr>users = [1 \<mapsto> \<lparr>username = ''u1'', profilePicture = None, friends = []\<rparr>,
               2 \<mapsto> \<lparr>username = ''u2'', profilePicture = None, friends = []\<rparr>,
               3 \<mapsto> \<lparr>username = ''u3'', profilePicture = None, friends = []\<rparr>],
      requests = [\<lparr>fr_id = 10, requester = 1, recipient = 2, status = pending\<rparr>],
      messages = []\<rparr>"

text \<open>The same database after three messages, two of them between users 1 and 2.\<close>

definition ex_messages :: store where
  "ex_messages = ex_store\<lparr>messages :=
     [\<lparr>sender = 1, receiver = 2, content = Some ''hi'', media = None, timestamp = 5\<rparr>,
      \<lparr>sender = 3, receiver = 1, content = Some ''yo'', media = None, timestamp = 6\<rparr>,
      \<lparr>sender = 2, receiver = 1, content = None, media = Some ''uploads/7-a.png'', timestamp = 7\<rparr>]\<rparr>"

text \<open>A request body whose client also put a \<^verbatim>\<open>sender\<close> field into it.\<close>

definition ex_body :: message_body where
  "ex_body = \<lparr>body_receiver = 2, body_content = Some ''hi'', body_other = [''sender'' \<mapsto> ''9'']\<rparr>"

text \<open>A relay with three connected sockets that have received nothing, and two payloads.\<close>

definition ex_relay :: relay where
  "ex_relay = \<lparr>sockets = {1, 2, 3}, received = (\<lambda>s. [])\<rparr>"

definition ex_payload :: "string \<rightharpoonup> jsval" where
  "ex_payload = [''sender'' \<mapsto> ''u9'', ''receiver'' \<mapsto> ''u2'', ''content'' \<mapsto> ''hi'']"

definition ex_payload2 :: "string \<rightharpoonup> jsval" where
  "ex_payload2 = [''sender'' \<mapsto> ''u2'', ''receiver'' \<mapsto> ''u1'', ''content'' \<mapsto> ''yo'']"

text \<open>
  The sample database after two messages were sent through the routes, the first when
  the server's clock read 9 and the second when it read 3.
\<close>

definition ex_reply :: message_body where
  "ex_reply = \<lparr>body_receiver = 1, body_content = Some ''yo'', body_other = Map.empty\<rparr>"

definition ex_clock_back :: store where
  "ex_clock_back =
     snd (handle ex_env
       (snd (handle ex_env ex_store
         \<lparr>authorization = Some ''token-u1'', route = PostMessage ex_body None,
          clock_now = 9, fresh_id = 0\<rparr>))
       \<lparr>authorization = Some ''token-u2'', route = PostMessage ex_reply None,
        clock_now = 3, fresh_id = 0\<rparr>)"

section \<open>Lemmas on the collections\<close>

lemma cast_hex24_examples:
  "cast_hex24 ''00000000000000000000000a'' = Some 10"
  "cast_hex24 ''000000000000000000000063'' = Some 99"
  "cast_hex24 ''99'' = None"
  by (simp_all add: cast_hex24_def hex_digit_def)

lemmas ex_simps = acceptFriendRequest_def ex_store_def FriendRequest_findById_def
  FriendRequest_save_def User_push_friend_def friends_of_def Let_def cast_hex24_examples

lemma find_map_replace:
  "find (\<lambda>r. fr_id r = i) xs = Some r \<Longrightarrow> fr_id r' = i \<Longrightarrow>
   find (\<lambda>r. fr_id r = i) (map (\<lambda>q. if fr_id q = i then r' else q) xs) = Some r'"
  by (induction xs) (auto split: if_splits)

lemma find_Some_id: "find (\<lambda>r. fr_id r = i) xs = Some r \<Longrightarrow> fr_id r = i"
  by (induction xs) (auto split: if_splits)

lemma findById_cases:
  "FriendRequest_findById cast st p = Inl CastError \<or>
   FriendRequest_findById cast st p = Inr None \<or>
   (\<exists>rq. FriendRequest_findById cast st p = Inr (Some rq))"
  by (cases "cast p"; cases "find (\<lambda>r. fr_id r = the (cast p)) (requests st)")
    (simp_all add: FriendRequest_findById_def)

lemma findById_save:
  assumes "FriendRequest_findById cast st p = Inr (Some rq)"
  shows "FriendRequest_findById cast (FriendRequest_save st (rq\<lparr>status := s\<rparr>)) p
    = Inr (Some (rq\<lparr>status := s\<rparr>))"
proof -
  from assms obtain i where c: "cast p = Some i"
    and f: "find (\<lambda>r. fr_id r = i) (requests st) = Some rq"
    by (auto simp: FriendRequest_findById_def split: option.splits)
  have i: "fr_id rq = i"
    using f by (rule find_Some_id)
  show ?thesis
    using c f find_map_replace [of i "requests st" rq "rq\<lparr>status := s\<rparr>"] i
    by (simp add: FriendRequest_findById_def FriendRequest_save_def)
qed

lemma users_save [simp]: "users (FriendRequest_save st r) = users st"
  by (simp add: FriendRequest_save_def)

lemma requests_push [simp]: "requests (User_push_friend st a b) = requests st"
  by (simp add: User_push_friend_def split: option.splits)

lemma findById_push [simp]:
  "FriendRequest_findById cast (User_push_friend st a b) p = FriendRequest_findById cast st p"
  by (simp add: FriendRequest_findById_def split: option.splits)

lemma accept_found:
  assumes "FriendRequest_findById cast st p = Inr (Some rq)"
    and "users st (requester rq) = Some ua" and "users st (recipient rq) = Some ub"
  shows "acceptFriendRequest cast st p =
    (Response 200 (Text ''Friend request accepted''),
     User_push_friend (User_push_friend (FriendRequest_save st (rq\<lparr>status := accepted\<rparr>))
        (requester rq) (recipient rq)) (recipient rq) (requester rq))"
  using assms by (simp add: acceptFriendRequest_def Let_def)

lemma friends_of_push:
  "users st a = Some u \<Longrightarrow>
   friends_of (User_push_friend st a b) c
     = (if c = a then friends_of st a @ [b] else friends_of st c)"
  by (simp add: friends_of_def User_push_friend_def)

lemma users_push_dom:
  "users st c = Some u \<Longrightarrow> \<exists>u'. users (User_push_friend st a b) c = Some u'"
  by (simp add: User_push_friend_def split: option.splits)

section \<open>Accepting a friend request\<close>

text \<open>
  Claim C1, as the code has it. The claim asks for each party to be in the other's
  friend list exactly once and for a second accept of the same request id to change
  nothing. The handler does not look at the request's status before it pushes, so the
  second half fails: on the sample database a second accept leaves user 1 with the
  friend list [2, 2] and user 2 with [1, 1].
\<close>

theorem second_accept_duplicates:
  "friends_of (snd (acceptFriendRequest cast_hex24 ex_store ''00000000000000000000000a'')) 1 = [2] \<and>
   friends_of (snd (acceptFriendRequest cast_hex24
     (snd (acceptFriendRequest cast_hex24 ex_store ''00000000000000000000000a'')) ''00000000000000000000000a'')) 1 = [2, 2] \<and>
   friends_of (snd (acceptFriendRequest cast_hex24
     (snd (acceptFriendRequest cast_hex24 ex_store ''00000000000000000000000a'')) ''00000000000000000000000a'')) 2 = [1, 1] \<and>
   snd (acceptFriendRequest cast_hex24
     (snd (acceptFriendRequest cast_hex24 ex_store ''00000000000000000000000a'')) ''00000000000000000000000a'')
     \<noteq> snd (acceptFriendRequest cast_hex24 ex_store ''00000000000000000000000a'')"
proof -
  have 1: "friends_of (snd (acceptFriendRequest cast_hex24 ex_store ''00000000000000000000000a'')) 1 = [2]"
    by (simp add: ex_simps)
  have 2: "friends_of (snd (acceptFriendRequest cast_hex24
     (snd (acceptFriendRequest cast_hex24 ex_store ''00000000000000000000000a'')) ''00000000000000000000000a'')) 1 = [2, 2]"
    by (simp add: ex_simps)
  have 3: "friends_of (snd (acceptFriendRequest cast_hex24
     (snd (acceptFriendRequest cast_hex24 ex_store ''00000000000000000000000a'')) ''00000000000000000000000a'')) 2 = [1, 1]"
    by (simp add: ex_simps)
  have "snd (acceptFriendRequest cast_hex24
     (snd (acceptFriendRequest cast_hex24 ex_store ''00000000000000000000000a'')) ''00000000000000000000000a'')
     \<noteq> snd (acceptFriendRequest cast_hex24 ex_store ''00000000000000000000000a'')"
  proof
    assume "snd (acceptFriendRequest cast_hex24
      (snd (acceptFriendRequest cast_hex24 ex_store ''00000000000000000000000a'')) ''00000000000000000000000a'')
      = snd (acceptFriendRequest cast_hex24 ex_store ''00000000000000000000000a'')"
    then have "friends_of (snd (acceptFriendRequest cast_hex24
      (snd (acceptFriendRequest cast_hex24 ex_store ''00000000000000000000000a'')) ''00000000000000000000000a'')) 1
      = friends_of (snd (acceptFriendRequest cast_hex24 ex_store ''00000000000000000000000a'')) 1"
      by simp
    with 1 2 show False by simp
  qed
  with 1 2 3 show ?thesis by simp
qed

text \<open>
  Claim C1, amended: an accept of an existing request between two distinct existing
  users answers 200, leaves the request accepted, and appends each party to the end
  of the other's friend list, once per call. So each list holds the other party one
  more time than before: exactly once after a first accept when it did not hold it
  before, and once more after every further accept of the same id.
\<close>

theorem accept_appends_each_time:
  assumes "FriendRequest_findById cast st p = Inr (Some rq)"
    and "requester rq \<noteq> recipient rq"
    and "users st (requester rq) = Some ua" and "users st (recipient rq) = Some ub"
  shows "fst (acceptFriendRequest cast st p) = Response 200 (Text ''Friend request accepted'') \<and>
    FriendRequest_findById cast (snd (acceptFriendRequest cast st p)) p
      = Inr (Some (rq\<lparr>status := accepted\<rparr>)) \<and>
    friends_of (snd (acceptFriendRequest cast st p)) (requester rq) = friends ua @ [recipient rq] \<and>
    friends_of (snd (acceptFriendRequest cast st p)) (recipient rq) = friends ub @ [requester rq] \<and>
    count_list (friends_of (snd (acceptFriendRequest cast st p)) (requester rq)) (recipient rq)
      = Suc (count_list (friends ua) (recipient rq)) \<and>
    count_list (friends_of (snd (acceptFriendRequest cast st p)) (recipient rq)) (requester rq)
      = Suc (count_list (friends ub) (requester rq))"
proof -
  let ?st1 = "FriendRequest_save st (rq\<lparr>status := accepted\<rparr>)"
  let ?st2 = "User_push_friend ?st1 (requester rq) (recipient rq)"
  let ?st3 = "User_push_friend ?st2 (recipient rq) (requester rq)"
  have acc: "acceptFriendRequest cast st p = (Response 200 (Text ''Friend request accepted''), ?st3)"
    using assms(1,3,4) by (rule accept_found)
  have u1: "users ?st1 (requester rq) = Some ua" and u1': "users ?st1 (recipient rq) = Some ub"
    using assms by simp_all
  have u2: "users ?st2 (recipient rq) = Some ub"
    using u1 u1' assms(2) by (simp add: User_push_friend_def)
  have f1: "friends_of ?st1 (requester rq) = friends ua" "friends_of ?st1 (recipient rq) = friends ub"
    using u1 u1' by (simp_all add: friends_of_def)
  have a: "friends_of ?st3 (requester rq) = friends ua @ [recipient rq]"
    using friends_of_push [OF u2, of "requester rq" "requester rq"]
      friends_of_push [OF u1, of "recipient rq" "requester rq"] assms(2) f1 by simp
  have b: "friends_of ?st3 (recipient rq) = friends ub @ [requester rq]"
    using friends_of_push [OF u2, of "requester rq" "recipient rq"]
      friends_of_push [OF u1, of "recipient rq" "recipient rq"] assms(2) f1 by simp
  have r: "FriendRequest_findById cast ?st3 p = Inr (Some (rq\<lparr>status := accepted\<rparr>))"
    using findById_save [OF assms(1)] by simp
  show ?thesis
    unfolding acc using a b r by simp
qed

theorem accept_appends_each_time_witness:
  "friends_of ex_store 1 = [] \<and> friends_of ex_store 2 = [] \<and>
   fst (acceptFriendRequest cast_hex24 ex_store ''00000000000000000000000a'')
     = Response 200 (Text ''Friend request accepted'') \<and>
   friends_of (snd (acceptFriendRequest cast_hex24 ex_store ''00000000000000000000000a'')) 1 = [2] \<and>
   friends_of (snd (acceptFriendRequest cast_hex24 ex_store ''00000000000000000000000a'')) 2 = [1] \<and>
   count_list (friends_of (snd (acceptFriendRequest cast_hex24 ex_store ''00000000000000000000000a'')) 1) 2 = 1 \<and>
   count_list (friends_of (snd (acceptFriendRequest cast_hex24 ex_store ''00000000000000000000000a'')) 2) 1 = 1"
proof -
  have f: "FriendRequest_findById cast_hex24 ex_store ''00000000000000000000000a''
    = Inr (Some \<lparr>fr_id = 10, requester = 1, recipient = 2, status = pending\<rparr>)"
    by (simp add: FriendRequest_findById_def ex_store_def cast_hex24_examples)
  have u: "users ex_store 1 = Some \<lparr>username = ''u1'', profilePicture = None, friends = []\<rparr>"
    "users ex_store 2 = Some \<lparr>username = ''u2'', profilePicture = None, friends = []\<rparr>"
    by (simp_all add: ex_store_def)
  show ?thesis
    using accept_appends_each_time [OF f _ _ _,
        of "\<lparr>username = ''u1'', profilePicture = None, friends = []\<rparr>"
        "\<lparr>username = ''u2'', profilePicture = None, friends = []\<rparr>"] u
    by (simp add: friends_of_def)
qed

text \<open>
  Claim C4, as the code has it. The claim asks for a NotFoundError when no request
  has the given id. The handler has no such check. For a well-formed id without a
  request the lookup yields \<^verbatim>\<open>null\<close> and the assignment to \<^verbatim>\<open>request.status\<close> raises
  a TypeError; for a string that is not a well-formed id the lookup itself is
  rejected with a CastError. Nothing catches either, so no response (no status code)
  comes from the handler.
\<close>

theorem accept_missing_request_uncaught:
  "FriendRequest_findById cast_hex24 ex_store ''000000000000000000000063'' = Inr None \<and>
   acceptFriendRequest cast_hex24 ex_store ''000000000000000000000063'' = (Thrown TypeError, ex_store) \<and>
   status_code (fst (acceptFriendRequest cast_hex24 ex_store ''000000000000000000000063'')) = None \<and>
   FriendRequest_findById cast_hex24 ex_store ''99'' = Inl CastError \<and>
   acceptFriendRequest cast_hex24 ex_store ''99'' = (Thrown CastError, ex_store) \<and>
   status_code (fst (acceptFriendRequest cast_hex24 ex_store ''99'')) = None"
  by (simp add: acceptFriendRequest_def FriendRequest_findById_def ex_store_def
      cast_hex24_examples)

text \<open>
  Claim C4, amended: when no request has the given id the accept fails with an
  uncaught exception, a CastError when the id string is not a well-formed ObjectId
  and a TypeError when it is, and the database is unchanged; the database changes
  only when the request exists; and when the request exists, and both of its users,
  the accept answers 200, the request is stored as accepted, and each party is in the
  other's friend list.
\<close>

theorem accept_missing_request:
  "(FriendRequest_findById cast st p = Inl CastError \<longrightarrow>
      acceptFriendRequest cast st p = (Thrown CastError, st)) \<and>
   (FriendRequest_findById cast st p = Inr None \<longrightarrow>
      acceptFriendRequest cast st p = (Thrown TypeError, st)) \<and>
   (snd (acceptFriendRequest cast st p) \<noteq> st \<longrightarrow>
      (\<exists>rq. FriendRequest_findById cast st p = Inr (Some rq))) \<and>
   (\<forall>rq ua ub. FriendRequest_findById cast st p = Inr (Some rq) \<and>
       users st (requester rq) = Some ua \<and> users st (recipient rq) = Some ub \<longrightarrow>
     fst (acceptFriendRequest cast st p) = Response 200 (Text ''Friend request accepted'') \<and>
     map_sum id (map_option status) (FriendRequest_findById cast (snd (acceptFriendRequest cast st p)) p)
       = Inr (Some accepted) \<and>
     recipient rq \<in> set (friends_of (snd (acceptFriendRequest cast st p)) (requester rq)) \<and>
     requester rq \<in> set (friends_of (snd (acceptFriendRequest cast st p)) (recipient rq)))"
proof (intro conjI allI impI)
  assume "FriendRequest_findById cast st p = Inl CastError"
  then show "acceptFriendRequest cast st p = (Thrown CastError, st)"
    by (simp add: acceptFriendRequest_def)
next
  assume "FriendRequest_findById cast st p = Inr None"
  then show "acceptFriendRequest cast st p = (Thrown TypeError, st)"
    by (simp add: acceptFriendRequest_def)
next
  assume changed: "snd (acceptFriendRequest cast st p) \<noteq> st"
  from findById_cases [of cast st p]
  show "\<exists>rq. FriendRequest_findById cast st p = Inr (Some rq)"
  proof (elim disjE)
    assume "FriendRequest_findById cast st p = Inl CastError"
    then have "snd (acceptFriendRequest cast st p) = st"
      by (simp add: acceptFriendRequest_def)
    with changed show ?thesis by simp
  next
    assume "FriendRequest_findById cast st p = Inr None"
    then have "snd (acceptFriendRequest cast st p) = st"
      by (simp add: acceptFriendRequest_def)
    with changed show ?thesis by simp
  next
    assume "\<exists>rq. FriendRequest_findById cast st p = Inr (Some rq)"
    then show ?thesis .
  qed
next
  fix rq ua ub
  assume h: "FriendRequest_findById cast st p = Inr (Some rq) \<and>
       users st (requester rq) = Some ua \<and> users st (recipient rq) = Some ub"
  let ?st1 = "FriendRequest_save st (rq\<lparr>status := accepted\<rparr>)"
  let ?st2 = "User_push_friend ?st1 (requester rq) (recipient rq)"
  let ?st3 = "User_push_friend ?st2 (recipient rq) (requester rq)"
  have acc: "acceptFriendRequest cast st p = (Response 200 (Text ''Friend request accepted''), ?st3)"
    using h by (simp add: accept_found)
  show "fst (acceptFriendRequest cast st p) = Response 200 (Text ''Friend request accepted'')"
    by (simp add: acc)
  show "map_sum id (map_option status)
      (FriendRequest_findById cast (snd (acceptFriendRequest cast st p)) p) = Inr (Some accepted)"
    using h findById_save [of cast st p rq accepted] by (simp add: acc)
  have u1: "users ?st1 (requester rq) = Some ua" and u1': "users ?st1 (recipient rq) = Some ub"
    using h by simp_all
  obtain ub' where u2: "users ?st2 (recipient rq) = Some ub'"
    using users_push_dom [OF u1'] by blast
  have a: "recipient rq \<in> set (friends_of ?st2 (requester rq))"
    using friends_of_push [OF u1, of "recipient rq" "requester rq"] by simp
  show "recipient rq \<in> set (friends_of (snd (acceptFriendRequest cast st p)) (requester rq))"
    using a friends_of_push [OF u2, of "requester rq" "requester rq"] by (simp add: acc)
  show "requester rq \<in> set (friends_of (snd (acceptFriendRequest cast st p)) (recipient rq))"
    using friends_of_push [OF u2, of "requester rq" "recipient rq"] by (simp add: acc)
qed

theorem accept_missing_request_witness:
  "FriendRequest_findById cast_hex24 ex_store ''99'' = Inl CastError \<and>
   acceptFriendRequest cast_hex24 ex_store ''99'' = (Thrown CastError, ex_store) \<and>
   FriendRequest_findById cast_hex24 ex_store ''000000000000000000000063'' = Inr None \<and>
   acceptFriendRequest cast_hex24 ex_store ''000000000000000000000063'' = (Thrown TypeError, ex_store) \<and>
   snd (acceptFriendRequest cast_hex24 ex_store ''00000000000000000000000a'') \<noteq> ex_store \<and>
   map_sum id (map_option status) (FriendRequest_findById cast_hex24 ex_store ''00000000000000000000000a'')
     = Inr (Some pending) \<and>
   fst (acceptFriendRequest cast_hex24 ex_store ''00000000000000000000000a'')
     = Response 200 (Text ''Friend request accepted'') \<and>
   map_sum id (map_option status) (FriendRequest_findById cast_hex24
       (snd (acceptFriendRequest cast_hex24 ex_store ''00000000000000000000000a'')) ''00000000000000000000000a'')
     = Inr (Some accepted) \<and>
   2 \<in> set (friends_of (snd (acceptFriendRequest cast_hex24 ex_store ''00000000000000000000000a'')) 1) \<and>
   1 \<in> set (friends_of (snd (acceptFriendRequest cast_hex24 ex_store ''00000000000000000000000a'')) 2)"
proof -
  have c: "FriendRequest_findById cast_hex24 ex_store ''99'' = Inl CastError"
    by (simp add: FriendRequest_findById_def cast_hex24_examples)
  have n: "FriendRequest_findById cast_hex24 ex_store ''000000000000000000000063'' = Inr None"
    by (simp add: FriendRequest_findById_def ex_store_def cast_hex24_examples)
  have f: "FriendRequest_findById cast_hex24 ex_store ''00000000000000000000000a''
    = Inr (Some \<lparr>fr_id = 10, requester = 1, recipient = 2, status = pending\<rparr>)"
    by (simp add: FriendRequest_findById_def ex_store_def cast_hex24_examples)
  have u: "users ex_store 1 = Some \<lparr>username = ''u1'', profilePicture = None, friends = []\<rparr>"
    "users ex_store 2 = Some \<lparr>username = ''u2'', profilePicture = None, friends = []\<rparr>"
    by (simp_all add: ex_store_def)
  have a: "acceptFriendRequest cast_hex24 ex_store ''99'' = (Thrown CastError, ex_store)"
    using accept_missing_request [of cast_hex24 ex_store "''99''"] c by simp
  have a': "acceptFriendRequest cast_hex24 ex_store ''000000000000000000000063'' = (Thrown TypeError, ex_store)"
    using accept_missing_request [of cast_hex24 ex_store "''000000000000000000000063''"] n by simp
  have b: "fst (acceptFriendRequest cast_hex24 ex_store ''00000000000000000000000a'')
       = Response 200 (Text ''Friend request accepted'') \<and>
     map_sum id (map_option status) (FriendRequest_findById cast_hex24
         (snd (acceptFriendRequest cast_hex24 ex_store ''00000000000000000000000a'')) ''00000000000000000000000a'')
       = Inr (Some accepted) \<and>
     2 \<in> set (friends_of (snd (acceptFriendRequest cast_hex24 ex_store ''00000000000000000000000a'')) 1) \<and>
     1 \<in> set (friends_of (snd (acceptFriendRequest cast_hex24 ex_store ''00000000000000000000000a'')) 2)"
    using accept_missing_request [of cast_hex24 ex_store "''00000000000000000000000a''"] f u by fastforce
  have d: "snd (acceptFriendRequest cast_hex24 ex_store ''00000000000000000000000a'') \<noteq> ex_store"
  proof
    assume "snd (acceptFriendRequest cast_hex24 ex_store ''00000000000000000000000a'') = ex_store"
    with b have "2 \<in> set (friends_of ex_store 1)" by simp
    then show False by (simp add: friends_of_def ex_store_def)
  qed
  show ?thesis using c n a a' b d f by simp
qed

text \<open>
  Claim C5, as the code has it. The claim asks for the accept to be refused unless
  the acting user is the request's recipient. The handler never reads the acting
  user: on the sample database user 3, who is neither party of the request, accepts
  it, and users 1 and 2 become friends.
\<close>

theorem accept_by_third_user:
  "ex_verify ''token-u3'' = Some 3 \<and>
   map_sum id (map_option recipient) (FriendRequest_findById cast_hex24 ex_store ''00000000000000000000000a'')
     = Inr (Some 2) \<and>
   fst (handle ex_env ex_store
     \<lparr>authorization = Some ''token-u3'', route = PostFriendRequestAccept ''00000000000000000000000a'',
      clock_now = 0, fresh_id = 0\<rparr>)
     = Response 200 (Text ''Friend request accepted'') \<and>
   map_sum id (map_option status) (FriendRequest_findById cast_hex24 (snd (handle ex_env ex_store
     \<lparr>authorization = Some ''token-u3'', route = PostFriendRequestAccept ''00000000000000000000000a'',
      clock_now = 0, fresh_id = 0\<rparr>)) ''00000000000000000000000a'')
     = Inr (Some accepted) \<and>
   friends_of (snd (handle ex_env ex_store
     \<lparr>authorization = Some ''token-u3'', route = PostFriendRequestAccept ''00000000000000000000000a'',
      clock_now = 0, fresh_id = 0\<rparr>)) 2
     = [1]"
  by (simp add: handle_def authenticateToken_def ex_env_def ex_verify_def ex_simps)

text \<open>
  Claim C5, amended: the accept does not compare the acting user with the request's
  recipient. For every user with a valid token the accept of a request id has the
  outcome and the effect that the request id alone determines.
\<close>

theorem accept_ignores_acting_user:
  "jwt_verify e t = Some uid \<Longrightarrow> t \<noteq> [] \<Longrightarrow>
   handle e st
     \<lparr>authorization = Some t, route = PostFriendRequestAccept p, clock_now = n, fresh_id = i\<rparr>
     = acceptFriendRequest (ObjectId_cast e) st p"
  by (simp add: handle_def authenticateToken_def)

theorem accept_ignores_acting_user_witness:
  "ex_verify ''token-u3'' = Some 3 \<and> ex_verify ''token-u2'' = Some 2 \<and>
   handle ex_env ex_store
     \<lparr>authorization = Some ''token-u3'', route = PostFriendRequestAccept ''00000000000000000000000a'',
      clock_now = 0, fresh_id = 0\<rparr>
   = acceptFriendRequest cast_hex24 ex_store ''00000000000000000000000a'' \<and>
   handle ex_env ex_store
     \<lparr>authorization = Some ''token-u2'', route = PostFriendRequestAccept ''00000000000000000000000a'',
      clock_now = 0, fresh_id = 0\<rparr>
   = acceptFriendRequest cast_hex24 ex_store ''00000000000000000000000a''"
proof -
  have v: "ex_verify ''token-u3'' = Some 3" "ex_verify ''token-u2'' = Some 2"
    by (simp_all add: ex_verify_def)
  show ?thesis
    using accept_ignores_acting_user [of ex_env "''token-u3''" 3 ex_store "''00000000000000000000000a''" 0 0]
      accept_ignores_acting_user [of ex_env "''token-u2''" 2 ex_store "''00000000000000000000000a''" 0 0] v
    by (simp add: ex_env_def)
qed

section \<open>The token middleware in front of every route\<close>

text \<open>
  Claim C8, as the code has it. The claim asks for status 401 on an invalid or
  expired token. The middleware answers 403 there, and 401 only when the header is
  missing.
\<close>

theorem invalid_token_is_403:
  "status_code (fst (handle ex_env ex_store
     \<lparr>authorization = Some ''expired'', route = GetProfile, clock_now = 0, fresh_id = 0\<rparr>)) = Some 403 \<and>
   status_code (fst (handle ex_env ex_store
     \<lparr>authorization = Some ''expired'', route = GetProfile, clock_now = 0, fresh_id = 0\<rparr>)) \<noteq> Some 401"
  by (simp add: handle_def authenticateToken_def ex_env_def ex_verify_def)

text \<open>
  Claim C8, amended: on every route, a request without an Authorization token is
  answered 401 "Access denied", and a request whose token does not verify is
  answered 403 "Invalid token". In both cases the answer is the same whatever the
  database holds and the database is left as it was: no handler runs.
\<close>

theorem auth_failures:
  "((authorization rq = None \<or> authorization rq = Some []) \<longrightarrow>
      handle e st rq = (Response 401 (Text ''Access denied''), st)) \<and>
   (\<forall>t. authorization rq = Some t \<and> t \<noteq> [] \<and> jwt_verify e t = None \<longrightarrow>
      handle e st rq = (Response 403 (Text ''Invalid token''), st))"
  by (auto simp: handle_def authenticateToken_def)

theorem auth_failures_witness:
  "handle ex_env ex_store
     \<lparr>authorization = None, route = PostFriendRequestAccept ''00000000000000000000000a'', clock_now = 0, fresh_id = 0\<rparr>
     = (Response 401 (Text ''Access denied''), ex_store) \<and>
   ex_verify ''expired'' = None \<and>
   handle ex_env ex_store
     \<lparr>authorization = Some ''expired'', route = PostFriendRequestAccept ''00000000000000000000000a'', clock_now = 0, fresh_id = 0\<rparr>
     = (Response 403 (Text ''Invalid token''), ex_store)"
  using auth_failures [of "\<lparr>authorization = None, route = PostFriendRequestAccept ''00000000000000000000000a'', clock_now = 0, fresh_id = 0\<rparr>"
      ex_env ex_store]
    auth_failures [of "\<lparr>authorization = Some ''expired'', route = PostFriendRequestAccept ''00000000000000000000000a'', clock_now = 0, fresh_id = 0\<rparr>"
      ex_env ex_store]
  by (simp add: ex_env_def ex_verify_def)

section \<open>Messages\<close>

lemma conversation_query_commute: "conversation_query a b = conversation_query b a"
  by (auto simp: conversation_query_def fun_eq_iff)

lemma sorted_filter_timestamps:
  "sorted (map timestamp ms) \<Longrightarrow> sorted (map timestamp (filter P ms))"
  by (induction ms) auto

lemma populate_ref_Some:
  "users st i = Some u \<Longrightarrow>
   populate_ref st i = Some \<lparr>p_id = i, p_username = username u, p_profilePicture = profilePicture u\<rparr>"
  by (simp add: populate_ref_def)

text \<open>
  The stored timestamps stay in non-decreasing order along the collection as long as
  the clock does not run backwards.
\<close>

lemma sendMessage_keeps_sorted:
  "sorted (map timestamp (messages st)) \<Longrightarrow> \<forall>m \<in> set (messages st). timestamp m \<le> now \<Longrightarrow>
   sorted (map timestamp (messages (snd (sendMessage valid st uid b file now))))"
  by (auto simp: sendMessage_def Let_def sorted_append)

lemma handle_keeps_sorted:
  "sorted (map timestamp (messages st)) \<Longrightarrow>
   \<forall>m \<in> set (messages st). timestamp m \<le> clock_now rq \<Longrightarrow>
   sorted (map timestamp (messages (snd (handle e st rq))))"
  by (auto simp: handle_def getProfile_def updateProfilePicture_def sendFriendRequest_def
      listPendingRequests_def acceptFriendRequest_def sendMessage_def getConversation_def
      FriendRequest_save_def User_push_friend_def Let_def sorted_append
      split: sum.splits route.splits option.splits)

text \<open>
  Claim C2, as the code has it. The claim asks for the conversation in ascending
  order of creation time. The query has no sort clause, so the answer is in the
  order of the collection: when the server's clock steps back between two sends
  (9, then 3), the conversation comes with the timestamps 9, 3.
\<close>

theorem getConversation_not_sorted:
  "getConversation ex_clock_back 1 2 =
     (Response 200 (MessagesJson
        [\<lparr>pm_sender = Some \<lparr>p_id = 1, p_username = ''u1'', p_profilePicture = None\<rparr>,
          pm_receiver = Some \<lparr>p_id = 2, p_username = ''u2'', p_profilePicture = None\<rparr>,
          pm_content = Some ''hi'', pm_media = None, pm_timestamp = 9\<rparr>,
         \<lparr>pm_sender = Some \<lparr>p_id = 2, p_username = ''u2'', p_profilePicture = None\<rparr>,
          pm_receiver = Some \<lparr>p_id = 1, p_username = ''u1'', p_profilePicture = None\<rparr>,
          pm_content = Some ''yo'', pm_media = None, pm_timestamp = 3\<rparr>]),
      ex_clock_back) \<and>
   response_timestamps (fst (getConversation ex_clock_back 1 2)) = [9, 3] \<and>
   \<not> sorted (response_timestamps (fst (getConversation ex_clock_back 1 2)))"
proof -
  have m: "messages ex_clock_back =
     [\<lparr>sender = 1, receiver = 2, content = Some ''hi'', media = None, timestamp = 9\<rparr>,
      \<lparr>sender = 2, receiver = 1, content = Some ''yo'', media = None, timestamp = 3\<rparr>]"
    by (simp add: ex_clock_back_def handle_def authenticateToken_def ex_env_def ex_verify_def
        sendMessage_def ex_body_def ex_reply_def ex_store_def)
  have u: "users ex_clock_back = users ex_store"
    by (simp add: ex_clock_back_def handle_def authenticateToken_def ex_env_def ex_verify_def
        sendMessage_def)
  show ?thesis
    by (simp add: getConversation_def conversation_query_def populate_message_def
        populate_ref_def m u ex_store_def)
qed

text \<open>
  Claim C2, amended: the conversation of two users is exactly the stored messages
  whose sender and receiver are the two users, one way or the other, in the order of
  the collection (the order in which they were stored), each with its sender and
  receiver replaced by that user's id, username and profile picture. The answer is
  in ascending timestamp order whenever the stored timestamps are.
\<close>

theorem getConversation_exact:
  "getConversation st a b =
     (Response 200 (MessagesJson (map (populate_message st)
        (filter (\<lambda>m. (sender m, receiver m) = (a, b) \<or> (sender m, receiver m) = (b, a))
           (messages st)))), st) \<and>
   (sorted (map timestamp (messages st)) \<longrightarrow>
      sorted (map pm_timestamp (map (populate_message st)
        (filter (\<lambda>m. (sender m, receiver m) = (a, b) \<or> (sender m, receiver m) = (b, a))
           (messages st))))) \<and>
   (\<forall>m u v. users st (sender m) = Some u \<and> users st (receiver m) = Some v \<longrightarrow>
      populate_message st m =
        \<lparr>pm_sender = Some \<lparr>p_id = sender m, p_username = username u, p_profilePicture = profilePicture u\<rparr>,
         pm_receiver = Some \<lparr>p_id = receiver m, p_username = username v, p_profilePicture = profilePicture v\<rparr>,
         pm_content = content m, pm_media = media m, pm_timestamp = timestamp m\<rparr>)"
proof (intro conjI allI impI)
  have q: "conversation_query a b
    = (\<lambda>m. (sender m, receiver m) = (a, b) \<or> (sender m, receiver m) = (b, a))"
    by (auto simp: conversation_query_def fun_eq_iff)
  show "getConversation st a b =
     (Response 200 (MessagesJson (map (populate_message st)
        (filter (\<lambda>m. (sender m, receiver m) = (a, b) \<or> (sender m, receiver m) = (b, a))
           (messages st)))), st)"
    by (simp add: getConversation_def q)
next
  assume s: "sorted (map timestamp (messages st))"
  have t: "pm_timestamp \<circ> populate_message st = timestamp"
    by (simp add: fun_eq_iff populate_message_def)
  show "sorted (map pm_timestamp (map (populate_message st)
        (filter (\<lambda>m. (sender m, receiver m) = (a, b) \<or> (sender m, receiver m) = (b, a))
           (messages st))))"
    using sorted_filter_timestamps [OF s] by (simp add: t)
next
  fix m :: message and u v :: user
  assume "users st (sender m) = Some u \<and> users st (receiver m) = Some v"
  then show "populate_message st m =
        \<lparr>pm_sender = Some \<lparr>p_id = sender m, p_username = username u, p_profilePicture = profilePicture u\<rparr>,
         pm_receiver = Some \<lparr>p_id = receiver m, p_username = username v, p_profilePicture = profilePicture v\<rparr>,
         pm_content = content m, pm_media = media m, pm_timestamp = timestamp m\<rparr>"
    by (simp add: populate_message_def populate_ref_Some)
qed

theorem getConversation_exact_witness:
  "sorted (map timestamp (messages ex_messages)) \<and>
   getConversation ex_messages 1 2 =
     (Response 200 (MessagesJson
        [\<lparr>pm_sender = Some \<lparr>p_id = 1, p_username = ''u1'', p_profilePicture = None\<rparr>,
          pm_receiver = Some \<lparr>p_id = 2, p_username = ''u2'', p_profilePicture = None\<rparr>,
          pm_content = Some ''hi'', pm_media = None, pm_timestamp = 5\<rparr>,
         \<lparr>pm_sender = Some \<lparr>p_id = 2, p_username = ''u2'', p_profilePicture = None\<rparr>,
          pm_receiver = Some \<lparr>p_id = 1, p_username = ''u1'', p_profilePicture = None\<rparr>,
          pm_content = None, pm_media = Some ''uploads/7-a.png'', pm_timestamp = 7\<rparr>]),
      ex_messages) \<and>
   sorted (map pm_timestamp (map (populate_message ex_messages)
     (filter (\<lambda>m. (sender m, receiver m) = (1, 2) \<or> (sender m, receiver m) = (2, 1))
        (messages ex_messages))))"
proof -
  have s: "sorted (map timestamp (messages ex_messages))"
    by (simp add: ex_messages_def)
  show ?thesis
    using getConversation_exact [of ex_messages 1 2] s
    by (simp add: ex_messages_def ex_store_def populate_message_def populate_ref_def)
qed

text \<open>
  Claim C7: the conversation query is symmetric in its two users: asked for (A, B) or
  for (B, A) it gives the same messages in the same order.
\<close>

theorem getConversation_symmetric: "getConversation st a b = getConversation st b a"
  by (simp add: getConversation_def conversation_query_commute [of a b])

theorem getConversation_symmetric_witness:
  "getConversation ex_messages 1 2 = getConversation ex_messages 2 1"
  using getConversation_symmetric [of ex_messages 1 2] by simp

text \<open>
  Claim C3: sending a message with neither text content nor a media file fails with
  a ValidationError and stores nothing. The handler has no check of its own: it
  fails exactly when the schema's validation refuses the document (first part, for
  any schema), and the schema as the spec has it refuses a document with neither
  field (second part).
\<close>

theorem sendMessage_rejects_empty:
  "(\<not> valid \<lparr>sender = uid, receiver = body_receiver b, content = body_content b,
              media = file, timestamp = now\<rparr> \<longrightarrow>
      sendMessage valid st uid b file now = (Thrown ValidationError, st)) \<and>
   (body_content b = None \<longrightarrow>
      sendMessage Message_schema_valid st uid b None now = (Thrown ValidationError, st))"
  by (simp add: sendMessage_def Message_schema_valid_def)

theorem sendMessage_rejects_empty_witness:
  "body_content \<lparr>body_receiver = 2, body_content = None, body_other = Map.empty\<rparr> = None \<and>
   \<not> Message_schema_valid \<lparr>sender = 1, receiver = 2, content = None, media = None, timestamp = 5\<rparr> \<and>
   sendMessage Message_schema_valid ex_store 1
     \<lparr>body_receiver = 2, body_content = None, body_other = Map.empty\<rparr> None 5
     = (Thrown ValidationError, ex_store)"
  using sendMessage_rejects_empty
    [of Message_schema_valid 1 "\<lparr>body_receiver = 2, body_content = None, body_other = Map.empty\<rparr>"
      None 5 ex_store]
  by (simp add: Message_schema_valid_def)

text \<open>
  Claim C9: stored messages are never edited or deleted. Whatever request the
  server handles, the messages stored before are still there afterwards, unchanged
  and in the same places, followed by at most one new message; sending a message
  appends the new message at the end or, when validation fails, changes nothing. The
  relay has no access to the database at all.
\<close>

theorem messages_append_only:
  "prefix (messages st) (messages (snd (handle e st rq))) \<and>
   length (messages (snd (handle e st rq))) \<le> Suc (length (messages st)) \<and>
   messages (snd (sendMessage valid st uid b file now)) =
     (if valid \<lparr>sender = uid, receiver = body_receiver b, content = body_content b,
                media = file, timestamp = now\<rparr>
      then messages st @ [\<lparr>sender = uid, receiver = body_receiver b, content = body_content b,
                           media = file, timestamp = now\<rparr>]
      else messages st)"
  by (auto simp: handle_def getProfile_def updateProfilePicture_def sendFriendRequest_def
      listPendingRequests_def acceptFriendRequest_def sendMessage_def getConversation_def
      FriendRequest_save_def User_push_friend_def Let_def
      split: sum.splits route.splits option.splits)

theorem messages_append_only_witness:
  "prefix (messages ex_messages) (messages (snd (handle ex_env ex_messages
     \<lparr>authorization = Some ''token-u1'', route = PostMessage ex_body None, clock_now = 8, fresh_id = 0\<rparr>))) \<and>
   messages (snd (handle ex_env ex_messages
     \<lparr>authorization = Some ''token-u1'', route = PostMessage ex_body None, clock_now = 8, fresh_id = 0\<rparr>))
   = messages ex_messages @
       [\<lparr>sender = 1, receiver = 2, content = Some ''hi'', media = None, timestamp = 8\<rparr>]"
  using messages_append_only [of ex_messages ex_env
    "\<lparr>authorization = Some ''token-u1'', route = PostMessage ex_body None, clock_now = 8, fresh_id = 0\<rparr>"]
  by (simp add: handle_def authenticateToken_def ex_env_def ex_verify_def sendMessage_def ex_body_def)

section \<open>The broadcast relay\<close>

lemma on_action_received:
  "on_action r a = Inr r' \<Longrightarrow>
   received r' s = received r s \<or>
   (\<exists>t f. a = SendMessage t (Object f) \<and> s \<in> sockets r \<and>
      received r' s = received r s @
       [\<lparr>ev_sender = f ''sender'', ev_receiver = f ''receiver'',
        ev_content = f ''content'', ev_media = f ''media''\<rparr>])"
  by (cases a) (auto simp: io_emit_def destructure_def split: if_splits arg.splits)

lemma on_action_not_connected:
  "on_action r a = Inr r' \<Longrightarrow> s \<notin> sockets r \<Longrightarrow> a \<noteq> Connection s \<Longrightarrow>
   received r' s = received r s \<and> s \<notin> sockets r'"
  by (cases a) (auto simp: io_emit_def split: if_splits arg.splits)

lemma run_append:
  "run r (xs @ ys) = (case run r xs of Inl e \<Rightarrow> Inl e | Inr r1 \<Rightarrow> run r1 ys)"
  by (induction xs arbitrary: r) (auto split: sum.splits)

lemma run_not_connected:
  "run r as = Inr r' \<Longrightarrow> s \<notin> sockets r \<Longrightarrow> Connection s \<notin> set as \<Longrightarrow>
   received r' s = received r s \<and> s \<notin> sockets r'"
proof (induction as arbitrary: r)
  case Nil
  then show ?case by simp
next
  case (Cons a as)
  from Cons.prems(1) obtain r1 where a: "on_action r a = Inr r1" and rest: "run r1 as = Inr r'"
    by (auto split: sum.splits)
  from Cons.prems have "a \<noteq> Connection s" by auto
  with a Cons.prems(2) have 1: "received r1 s = received r s \<and> s \<notin> sockets r1"
    by (rule on_action_not_connected)
  with Cons.IH [OF rest] Cons.prems(3) show ?case by simp
qed

lemma published_Cons:
  "published (a # as) = published as \<or>
   (\<exists>t f. a = SendMessage t (Object f) \<and>
      published (a # as) =
       \<lparr>ev_sender = f ''sender'', ev_receiver = f ''receiver'',
        ev_content = f ''content'', ev_media = f ''media''\<rparr> # published as)"
  by (cases "(a # as)" rule: published.cases) auto

lemma run_received_subseq:
  "run r as = Inr r' \<Longrightarrow> \<exists>es. received r' s = received r s @ es \<and> subseq es (published as)"
proof (induction as arbitrary: r)
  case Nil
  then show ?case by simp
next
  case (Cons a as)
  from Cons.prems obtain r1 where a: "on_action r a = Inr r1" and rest: "run r1 as = Inr r'"
    by (auto split: sum.splits)
  from Cons.IH [OF rest] obtain es
    where es: "received r' s = received r1 s @ es" "subseq es (published as)"
    by blast
  from on_action_received [OF a, of s] show ?case
  proof
    assume "received r1 s = received r s"
    moreover have "subseq es (published (a # as))"
      using es(2) published_Cons [of a as] by auto
    ultimately show ?thesis using es(1) by auto
  next
    assume "\<exists>t f. a = SendMessage t (Object f) \<and> s \<in> sockets r \<and>
      received r1 s = received r s @
       [\<lparr>ev_sender = f ''sender'', ev_receiver = f ''receiver'',
        ev_content = f ''content'', ev_media = f ''media''\<rparr>]"
    then obtain t f
      where tf: "a = SendMessage t (Object f)"
        "received r1 s = received r s @
       [\<lparr>ev_sender = f ''sender'', ev_receiver = f ''receiver'',
        ev_content = f ''content'', ev_media = f ''media''\<rparr>]"
      by blast
    have "received r' s = received r s @
       (\<lparr>ev_sender = f ''sender'', ev_receiver = f ''receiver'',
        ev_content = f ''content'', ev_media = f ''media''\<rparr> # es)"
      using es(1) tf(2) by simp
    moreover have "subseq
       (\<lparr>ev_sender = f ''sender'', ev_receiver = f ''receiver'',
        ev_content = f ''content'', ev_media = f ''media''\<rparr> # es)
       (published (a # as))"
      using es(2) tf(1) by simp
    ultimately show ?thesis by blast
  qed
qed

text \<open>
  Claim C6: a \<^verbatim>\<open>sendMessage\<close> event from a connected socket hands the event, with the
  four fields as the client wrote them, once to every socket connected at that
  moment, the sender's included, whatever its \<^verbatim>\<open>receiver\<close> field says, and to no other
  socket. A socket \<open>l\<close> that connects later gets nothing of what was published
  before: after its connection it has received, beyond what it had, only events
  published after the connection.
\<close>

theorem publish_reaches_all_connected:
  "(s \<in> sockets r \<longrightarrow>
      (\<exists>r'. on_action r (SendMessage s (Object f)) = Inr r' \<and> sockets r' = sockets r \<and>
         (\<forall>t. received r' t =
            (if t \<in> sockets r
             then received r t @
       [\<lparr>ev_sender = f ''sender'', ev_receiver = f ''receiver'',
        ev_content = f ''content'', ev_media = f ''media''\<rparr>]
             else received r t)))) \<and>
   (\<forall>pre post r'. l \<notin> sockets r \<and> Connection l \<notin> set pre \<and>
        run r (pre @ Connection l # post) = Inr r' \<longrightarrow>
      (\<exists>es. received r' l = received r l @ es \<and> subseq es (published post)))"
proof (intro conjI allI impI)
  assume "s \<in> sockets r"
  then show "\<exists>r'. on_action r (SendMessage s (Object f)) = Inr r' \<and> sockets r' = sockets r \<and>
         (\<forall>t. received r' t =
            (if t \<in> sockets r
             then received r t @
       [\<lparr>ev_sender = f ''sender'', ev_receiver = f ''receiver'',
        ev_content = f ''content'', ev_media = f ''media''\<rparr>]
             else received r t))"
    by (simp add: io_emit_def destructure_def)
next
  fix pre post r'
  assume h: "l \<notin> sockets r \<and> Connection l \<notin> set pre \<and>
        run r (pre @ Connection l # post) = Inr r'"
  then obtain r1 where r1: "run r pre = Inr r1" and r2: "run r1 (Connection l # post) = Inr r'"
    by (auto simp: run_append split: sum.splits)
  have 1: "received r1 l = received r l"
    using run_not_connected [OF r1] h by simp
  from r2 have "run (r1\<lparr>sockets := insert l (sockets r1)\<rparr>) post = Inr r'"
    by simp
  from run_received_subseq [OF this, of l] 1
  show "\<exists>es. received r' l = received r l @ es \<and> subseq es (published post)"
    by simp
qed

theorem publish_reaches_all_connected_witness:
  "1 \<in> sockets ex_relay \<and>
   (\<exists>r'. on_action ex_relay (SendMessage 1 (Object ex_payload)) = Inr r' \<and>
      received r' 1 =
       [\<lparr>ev_sender = Some ''u9'', ev_receiver = Some ''u2'',
        ev_content = Some ''hi'', ev_media = None\<rparr>] \<and>
      received r' 2 =
       [\<lparr>ev_sender = Some ''u9'', ev_receiver = Some ''u2'',
        ev_content = Some ''hi'', ev_media = None\<rparr>] \<and>
      received r' 3 =
       [\<lparr>ev_sender = Some ''u9'', ev_receiver = Some ''u2'',
        ev_content = Some ''hi'', ev_media = None\<rparr>] \<and>
      received r' 4 = []) \<and>
   4 \<notin> sockets ex_relay \<and>
   (\<exists>r'. run ex_relay ([SendMessage 1 (Object ex_payload)] @
              Connection 4 # [SendMessage 2 (Object ex_payload2)]) = Inr r' \<and>
      (\<exists>es. received r' 4 = received ex_relay 4 @ es \<and>
         subseq es (published [SendMessage 2 (Object ex_payload2)])) \<and>
      received r' 4 =
       [\<lparr>ev_sender = Some ''u2'', ev_receiver = Some ''u1'',
        ev_content = Some ''yo'', ev_media = None\<rparr>] \<and>
      received r' 1 =
       [\<lparr>ev_sender = Some ''u9'', ev_receiver = Some ''u2'',
        ev_content = Some ''hi'', ev_media = None\<rparr>,
        \<lparr>ev_sender = Some ''u2'', ev_receiver = Some ''u1'',
        ev_content = Some ''yo'', ev_media = None\<rparr>])"
proof -
  have m: "1 \<in> sockets ex_relay" "2 \<in> sockets ex_relay" "3 \<in> sockets ex_relay"
    "4 \<notin> sockets ex_relay"
    by (simp_all add: ex_relay_def)
  have e: "received ex_relay 1 = []" "received ex_relay 2 = []" "received ex_relay 3 = []"
    "received ex_relay 4 = []"
    by (simp_all add: ex_relay_def)
  have p: "ex_payload ''sender'' = Some ''u9''" "ex_payload ''receiver'' = Some ''u2''"
    "ex_payload ''content'' = Some ''hi''" "ex_payload ''media'' = None"
    by (simp_all add: ex_payload_def)
  note inst = publish_reaches_all_connected [of 1 ex_relay ex_payload 4]
  from inst m(1) obtain r1 where r1: "on_action ex_relay (SendMessage 1 (Object ex_payload)) = Inr r1"
    and rec: "\<forall>t. received r1 t =
       (if t \<in> sockets ex_relay
        then received ex_relay t @
          [\<lparr>ev_sender = ex_payload ''sender'', ev_receiver = ex_payload ''receiver'',
            ev_content = ex_payload ''content'', ev_media = ex_payload ''media''\<rparr>]
        else received ex_relay t)"
    by blast
  have a: "\<exists>r'. on_action ex_relay (SendMessage 1 (Object ex_payload)) = Inr r' \<and>
      received r' 1 =
       [\<lparr>ev_sender = Some ''u9'', ev_receiver = Some ''u2'',
        ev_content = Some ''hi'', ev_media = None\<rparr>] \<and>
      received r' 2 =
       [\<lparr>ev_sender = Some ''u9'', ev_receiver = Some ''u2'',
        ev_content = Some ''hi'', ev_media = None\<rparr>] \<and>
      received r' 3 =
       [\<lparr>ev_sender = Some ''u9'', ev_receiver = Some ''u2'',
        ev_content = Some ''hi'', ev_media = None\<rparr>] \<and>
      received r' 4 = []"
    using r1 rec m e p by simp
  have "\<exists>r'. run ex_relay ([SendMessage 1 (Object ex_payload)] @
              Connection 4 # [SendMessage 2 (Object ex_payload2)]) = Inr r' \<and>
      received r' 4 =
       [\<lparr>ev_sender = Some ''u2'', ev_receiver = Some ''u1'',
        ev_content = Some ''yo'', ev_media = None\<rparr>] \<and>
      received r' 1 =
       [\<lparr>ev_sender = Some ''u9'', ev_receiver = Some ''u2'',
        ev_content = Some ''hi'', ev_media = None\<rparr>,
        \<lparr>ev_sender = Some ''u2'', ev_receiver = Some ''u1'',
        ev_content = Some ''yo'', ev_media = None\<rparr>]"
    by (simp add: ex_relay_def io_emit_def destructure_def ex_payload_def ex_payload2_def)
  then obtain r2 where r2: "run ex_relay ([SendMessage 1 (Object ex_payload)] @
              Connection 4 # [SendMessage 2 (Object ex_payload2)]) = Inr r2"
    and c: "received r2 4 =
       [\<lparr>ev_sender = Some ''u2'', ev_receiver = Some ''u1'',
        ev_content = Some ''yo'', ev_media = None\<rparr>]"
      "received r2 1 =
       [\<lparr>ev_sender = Some ''u9'', ev_receiver = Some ''u2'',
        ev_content = Some ''hi'', ev_media = None\<rparr>,
        \<lparr>ev_sender = Some ''u2'', ev_receiver = Some ''u1'',
        ev_content = Some ''yo'', ev_media = None\<rparr>]"
    by blast
  have "\<exists>es. received r2 4 = received ex_relay 4 @ es \<and>
         subseq es (published [SendMessage 2 (Object ex_payload2)])"
    using inst [THEN conjunct2, rule_format,
        of "[SendMessage 1 (Object ex_payload)]" "[SendMessage 2 (Object ex_payload2)]" r2]
      m(4) r2
    by simp
  with r2 c have b: "\<exists>r'. run ex_relay ([SendMessage 1 (Object ex_payload)] @
              Connection 4 # [SendMessage 2 (Object ex_payload2)]) = Inr r' \<and>
      (\<exists>es. received r' 4 = received ex_relay 4 @ es \<and>
         subseq es (published [SendMessage 2 (Object ex_payload2)])) \<and>
      received r' 4 =
       [\<lparr>ev_sender = Some ''u2'', ev_receiver = Some ''u1'',
        ev_content = Some ''yo'', ev_media = None\<rparr>] \<and>
      received r' 1 =
       [\<lparr>ev_sender = Some ''u9'', ev_receiver = Some ''u2'',
        ev_content = Some ''hi'', ev_media = None\<rparr>,
        \<lparr>ev_sender = Some ''u2'', ev_receiver = Some ''u1'',
        ev_content = Some ''yo'', ev_media = None\<rparr>]"
    by blast
  show ?thesis using m a b by simp
qed

text \<open>
  Claim C10, as the code has it. The claim speaks of every inbound \<^verbatim>\<open>sendMessage\<close>
  event. An event that a connected client sends without a payload makes the
  destructuring in the listener's parameter raise a TypeError, and nothing is
  emitted.
\<close>

theorem relay_event_without_payload:
  "1 \<in> sockets ex_relay \<and>
   on_action ex_relay (SendMessage 1 Nullish) = Inl TypeError \<and>
   run ex_relay [SendMessage 1 Nullish] = Inl TypeError"
  by (simp add: ex_relay_def)

text \<open>
  Claim C10, amended: the relay verifies no token. Any client may connect; for a
  \<^verbatim>\<open>sendMessage\<close> event with a payload object from any connected socket the relay
  emits an event made of exactly the \<^verbatim>\<open>sender\<close>, \<^verbatim>\<open>receiver\<close>, \<^verbatim>\<open>content\<close> and \<^verbatim>\<open>media\<close>
  the client sent, and every connected socket receives it: the sender on this channel
  is whatever the client wrote. On the REST path the stored sender is the id of the
  verified token, whatever the body holds.
\<close>

theorem relay_sender_unauthenticated:
  "on_action r (Connection s) = Inr (r\<lparr>sockets := insert s (sockets r)\<rparr>) \<and>
   (s \<in> sockets r \<longrightarrow>
      on_action r (SendMessage s (Object f)) =
        Inr (io_emit r \<lparr>ev_sender = f ''sender'', ev_receiver = f ''receiver'',
                        ev_content = f ''content'', ev_media = f ''media''\<rparr>)) \<and>
   (\<forall>t. t \<in> sockets r \<longrightarrow> received (io_emit r ev) t = received r t @ [ev]) \<and>
   (jwt_verify e tok = Some uid \<and> tok \<noteq> [] \<and>
    Message_validate e \<lparr>sender = uid, receiver = body_receiver b, content = body_content b,
           media = file, timestamp = n\<rparr> \<longrightarrow>
      handle e st
        \<lparr>authorization = Some tok, route = PostMessage b file, clock_now = n, fresh_id = i\<rparr> =
      (Response 201 (Text ''Message sent''),
       st\<lparr>messages := messages st @
         [\<lparr>sender = uid, receiver = body_receiver b, content = body_content b,
           media = file, timestamp = n\<rparr>]\<rparr>))"
  by (simp add: io_emit_def destructure_def handle_def authenticateToken_def sendMessage_def)

theorem relay_sender_unauthenticated_witness:
  "1 \<in> sockets ex_relay \<and> 2 \<in> sockets ex_relay \<and>
   on_action ex_relay (SendMessage 1 (Object ex_payload)) =
     Inr (io_emit ex_relay \<lparr>ev_sender = Some ''u9'', ev_receiver = Some ''u2'',
                            ev_content = Some ''hi'', ev_media = None\<rparr>) \<and>
   received (io_emit ex_relay \<lparr>ev_sender = Some ''u9'', ev_receiver = Some ''u2'',
                            ev_content = Some ''hi'', ev_media = None\<rparr>) 2 =
     [\<lparr>ev_sender = Some ''u9'', ev_receiver = Some ''u2'',
       ev_content = Some ''hi'', ev_media = None\<rparr>] \<and>
   ex_verify ''token-u1'' = Some 1 \<and> body_other ex_body ''sender'' = Some ''9'' \<and>
   handle ex_env ex_store
     \<lparr>authorization = Some ''token-u1'', route = PostMessage ex_body None, clock_now = 5, fresh_id = 0\<rparr> =
   (Response 201 (Text ''Message sent''),
    ex_store\<lparr>messages := messages ex_store @
      [\<lparr>sender = 1, receiver = 2, content = Some ''hi'', media = None, timestamp = 5\<rparr>]\<rparr>)"
proof -
  have v: "ex_verify ''token-u1'' = Some 1"
    by (simp add: ex_verify_def)
  have m: "1 \<in> sockets ex_relay" "2 \<in> sockets ex_relay"
    by (simp_all add: ex_relay_def)
  have r: "received ex_relay 2 = []"
    by (simp add: ex_relay_def)
  show ?thesis
    using relay_sender_unauthenticated [of ex_relay 1 ex_payload
        "\<lparr>ev_sender = Some ''u9'', ev_receiver = Some ''u2'', ev_content = Some ''hi'', ev_media = None\<rparr>"
        ex_env "''token-u1''" 1 ex_body None 5 ex_store 0] v m r
    by (simp add: ex_payload_def ex_body_def ex_env_def)
qed

end
